theory Spec2Isabelle
  imports Main "HOL-Library.Sublist"
begin

section \<open>Strings and the storage engine\<close>

text \<open>
  The strings of form fields and of table columns are lists of Unicode code points: the
  regular expression of the validator and the LIKE operator both work on characters, not
  on bytes. \<open>ustr\<close> writes such a string from an ASCII literal. The request URL, the
  names of the views and the redirect targets are the byte strings that the HTTP layer
  handles.
\<close>

type_synonym ustring = "nat list"

definition ustr :: "string \<Rightarrow> ustring" where
  "ustr str = map of_char str"

text \<open>
  A value in the column \<open>year\<close>. The column is declared \<open>INTEGER\<close>: a text that SQLite
  reads as a number is stored as that number, any other text is stored as it is. In
  both cases the value has a text form, which is what LIKE compares.
\<close>

datatype sql_value = SqlNumber ustring | SqlText ustring

fun sql_text :: "sql_value \<Rightarrow> ustring" where
  "sql_text (SqlNumber str) = str"
| "sql_text (SqlText str) = str"

text \<open>
  Two conversions of the SQLite engine (src/db/index.js sets the dialect) are not in the
  repository and depend on how the engine reads numeric text, floating point included.
  They are parameters of the model, and every theorem below holds for all of them:
  \<^item> \<open>key_of\<close>: the integer key that the comparison \<open>id = text\<close> equates with a text,
    if there is one (\<open>findByPk\<close> is called with the text of the route parameter);
  \<^item> \<open>integer_affinity\<close>: what the column \<open>year\<close> stores for a text that is written
    to it.
\<close>

record sqlite =
  key_of :: "ustring \<Rightarrow> nat option"
  integer_affinity :: "ustring \<Rightarrow> sql_value"

section \<open>The Book model (src/db/models/Book.js)\<close>

text \<open>
  A row of the table behind the Sequelize model \<open>Book\<close>. The primary key is an
  auto-incremented integer. The columns title, author, genre and year are kept nullable
  here (\<open>None\<close> is SQL NULL), so that "title and author are never null" is a property to
  be proved of the validators and not of the type. \<open>Book.init\<close> does not switch the
  timestamps off, so Sequelize adds the columns \<open>createdAt\<close> and \<open>updatedAt\<close>; a time is
  a number of clock ticks.
\<close>

record book =
  book_id :: nat
  title :: "ustring option"
  author :: "ustring option"
  genre :: "ustring option"
  year :: "sql_value option"
  createdAt :: nat
  updatedAt :: nat

text \<open>
  The table: its rows in storage order, and the largest key handed out so far (the
  counter SQLite keeps for an AUTOINCREMENT key).
\<close>

record store =
  rows :: "book list"
  seq :: nat

definition empty_store :: store where
  "empty_store = \<lparr>rows = [], seq = 0\<rparr>"

text \<open>
  The parsed body of a form post (\<open>bodyParser.urlencoded\<close>): every field is a string
  or is absent (\<open>undefined\<close> in the source). The forms of the application post the
  fields title, author, genre, year (create, update) and search; other keys and repeated
  keys are outside the model.
\<close>

record form =
  form_title :: "ustring option"
  form_author :: "ustring option"
  form_genre :: "ustring option"
  form_year :: "ustring option"
  form_search :: "ustring option"

datatype js_error = SequelizeValidationError | TypeError

text \<open>
  The validator \<open>notEmpty\<close> of Book.js is Sequelize's: the value fails when it matches
  \<^verbatim>\<open>/^[\s\t\r\n]*$/\<close>, that is when every character of it is white space (the empty
  string included). \<open>is_space\<close> is the class \<^verbatim>\<open>\s\<close> of JavaScript: tab, line feed,
  vertical tab, form feed, carriage return, space, U+00A0, U+1680, U+2000 to U+200A,
  U+2028, U+2029, U+202F, U+205F, U+3000 and U+FEFF.
\<close>

definition is_space :: "nat \<Rightarrow> bool" where
  "is_space c =
     (c \<in> set [0x09, 0x0A, 0x0B, 0x0C, 0x0D, 0x20, 0xA0, 0x1680,
                0x2028, 0x2029, 0x202F, 0x205F, 0x3000, 0xFEFF]
      \<or> (0x2000 \<le> c \<and> c \<le> 0x200A))"

definition notEmpty :: "ustring \<Rightarrow> bool" where
  "notEmpty str = (\<not> list_all is_space str)"

text \<open>
  \<open>allowNull: false\<close> with \<open>notNull\<close> and \<open>notEmpty\<close>, as declared for title and for
  author. On create every attribute is validated; on update only the attributes that the
  call sets are (an absent field leaves the column as it is).
\<close>

definition validate_on_create :: "ustring option \<Rightarrow> bool" where
  "validate_on_create v = (case v of None \<Rightarrow> False | Some str \<Rightarrow> notEmpty str)"

definition validate_on_update :: "ustring option \<Rightarrow> bool" where
  "validate_on_update v = (case v of None \<Rightarrow> True | Some str \<Rightarrow> notEmpty str)"

definition next_id :: "store \<Rightarrow> nat" where
  "next_id s = Suc (fold max (map book_id (rows s)) (seq s))"

text \<open>
  \<open>Book.create(values)\<close> at the time \<open>t\<close>: validate, then insert the row with a fresh
  key and both timestamps set to the time.
\<close>

definition Book_create :: "sqlite \<Rightarrow> nat \<Rightarrow> form \<Rightarrow> store \<Rightarrow> (js_error + book) \<times> store" where
  "Book_create db t f s =
     (if validate_on_create (form_title f) \<and> validate_on_create (form_author f) then
        (let b = \<lparr>book_id = next_id s, title = form_title f, author = form_author f,
                  genre = form_genre f,
                  year = map_option (integer_affinity db) (form_year f),
                  createdAt = t, updatedAt = t\<rparr>
         in (Inr b, s\<lparr>rows := rows s @ [b], seq := book_id b\<rparr>))
      else (Inl SequelizeValidationError, s))"

definition Book_findAll :: "store \<Rightarrow> book list" where
  "Book_findAll s = rows s"

text \<open>\<open>Book.findByPk(text)\<close>: the row whose key the engine equates with the text.\<close>

definition Book_findByPk :: "sqlite \<Rightarrow> ustring \<Rightarrow> store \<Rightarrow> book option" where
  "Book_findByPk db pk s =
     (case key_of db pk of
        None \<Rightarrow> None
      | Some i \<Rightarrow> find (\<lambda>b. book_id b = i) (rows s))"

text \<open>
  \<open>instance.set(values)\<close> marks an attribute as changed when the value set differs from
  the value read. The value set is the string of the form; the value read is a string
  for a text column, and a number, which no string equals, for a number in \<open>year\<close>.
\<close>

definition changed :: "form \<Rightarrow> book \<Rightarrow> bool" where
  "changed f b =
     ((case form_title f of None \<Rightarrow> False | Some v \<Rightarrow> title b \<noteq> Some v)
      \<or> (case form_author f of None \<Rightarrow> False | Some v \<Rightarrow> author b \<noteq> Some v)
      \<or> (case form_genre f of None \<Rightarrow> False | Some v \<Rightarrow> genre b \<noteq> Some v)
      \<or> (case form_year f of None \<Rightarrow> False | Some v \<Rightarrow> year b \<noteq> Some (SqlText v)))"

text \<open>
  The UPDATE statement of \<open>save\<close> at the time \<open>t\<close>: the columns of the fields present
  get the values set, and \<open>updatedAt\<close> gets the time.
\<close>

definition write_values :: "sqlite \<Rightarrow> nat \<Rightarrow> form \<Rightarrow> book \<Rightarrow> book" where
  "write_values db t f r =
     r\<lparr>title := (case form_title f of None \<Rightarrow> title r | Some v \<Rightarrow> Some v),
       author := (case form_author f of None \<Rightarrow> author r | Some v \<Rightarrow> Some v),
       genre := (case form_genre f of None \<Rightarrow> genre r | Some v \<Rightarrow> Some v),
       year := (case form_year f of None \<Rightarrow> year r | Some v \<Rightarrow> Some (integer_affinity db v)),
       updatedAt := t\<rparr>"

text \<open>
  \<open>book.update(values)\<close>: set, validate, and when an attribute has changed write the
  row of that key; when none has, \<open>save\<close> returns without writing.
\<close>

definition Book_update :: "sqlite \<Rightarrow> nat \<Rightarrow> form \<Rightarrow> book \<Rightarrow> store \<Rightarrow> (js_error + book) \<times> store" where
  "Book_update db t f b s =
     (if validate_on_update (form_title f) \<and> validate_on_update (form_author f) then
        (if changed f b then
           (Inr (write_values db t f b),
            s\<lparr>rows := map (\<lambda>r. if book_id r = book_id b then write_values db t f r else r)
                         (rows s)\<rparr>)
         else (Inr b, s))
      else (Inl SequelizeValidationError, s))"

text \<open>\<open>book.destroy()\<close>: delete the row of that key.\<close>

definition Book_destroy :: "book \<Rightarrow> store \<Rightarrow> store" where
  "Book_destroy b s = s\<lparr>rows := filter (\<lambda>r. book_id r \<noteq> book_id b) (rows s)\<rparr>"

subsection \<open>The LIKE operator\<close>

text \<open>
  \<open>Op.like\<close> is SQL LIKE of the SQLite dialect: in the pattern \<open>%\<close> (code point 37)
  stands for any run of characters and \<open>_\<close> (code point 95) for any one character;
  every other character matches itself, ASCII letters without regard to case (the
  lower-case letters are the code points 97 to 122, each 32 above its upper-case
  letter). A NULL column matches nothing.
\<close>

definition ascii_upper :: "nat \<Rightarrow> nat" where
  "ascii_upper c = (if 97 \<le> c \<and> c \<le> 122 then c - 32 else c)"

fun like :: "ustring \<Rightarrow> ustring \<Rightarrow> bool" where
  "like [] str = (str = [])"
| "like (p # ps) [] = (p = 37 \<and> like ps [])"
| "like (p # ps) (c # cs) =
     (if p = 37 then like ps (c # cs) \<or> like (p # ps) cs
      else (p = 95 \<or> ascii_upper p = ascii_upper c) \<and> like ps cs)"

definition column_like :: "ustring \<Rightarrow> ustring option \<Rightarrow> bool" where
  "column_like pat v = (case v of None \<Rightarrow> False | Some str \<Rightarrow> like pat str)"

text \<open>
  The \<open>where\<close> clause of the search route: \<open>Op.or\<close> of four \<open>Op.like\<close> conditions,
  all with the pattern \<open>"%" + search + "%"\<close>; the year is compared in its text form.
\<close>

definition search_where :: "ustring \<Rightarrow> book \<Rightarrow> bool" where
  "search_where search b =
     (column_like (ustr ''%'' @ search @ ustr ''%'') (title b)
      \<or> column_like (ustr ''%'' @ search @ ustr ''%'') (author b)
      \<or> column_like (ustr ''%'' @ search @ ustr ''%'') (genre b)
      \<or> column_like (ustr ''%'' @ search @ ustr ''%'') (map_option sql_text (year b)))"

definition Book_findAll_where :: "(book \<Rightarrow> bool) \<Rightarrow> store \<Rightarrow> book list" where
  "Book_findAll_where cond s = filter cond (rows s)"

text \<open>A search term without the two wildcard characters of LIKE.\<close>

definition wildcard_free :: "ustring \<Rightarrow> bool" where
  "wildcard_free t = (37 \<notin> set t \<and> 95 \<notin> set t)"

section \<open>Requests, responses and the error wrapper\<close>

text \<open>
  A request: its URL, the route parameter \<open>id\<close>, the parsed body, and the reading of
  the clock when it is handled.
\<close>

record request =
  url :: string
  params_id :: ustring
  body :: form
  now :: nat

text \<open>
  What a view is rendered with: nothing, \<open>{books}\<close>, \<open>{book}\<close> (the instance found,
  or null), the values of the creation form with the alert flag, or the values of the
  update form (the id as text) with the alert flag.
\<close>

datatype locals =
    NoLocals
  | Books "book list"
  | BookInstance "book option"
  | NewBookValues "ustring option" "ustring option" "ustring option" "ustring option" bool
  | UpdateBookValues string "ustring option" "ustring option" "ustring option" "ustring option" bool

datatype response = Redirect string | Render nat string locals

text \<open>
  A handler runs on a request and the store; it ends with a response, or an error
  escapes it (\<open>Inl\<close>: the promise of the async function is rejected).
\<close>

type_synonym handler = "request \<Rightarrow> store \<Rightarrow> (js_error + response) \<times> store"

definition asyncHandler :: "handler \<Rightarrow> handler" where
  "asyncHandler cb req s =
     (case cb req s of
        (Inr r, s') \<Rightarrow> (Inr r, s')
      | (Inl error, s') \<Rightarrow>
          (if error = SequelizeValidationError then
             (if url req = ''/books/new'' then
                (Inr (Render 200 ''new-book''
                        (NewBookValues (form_title (body req)) (form_author (body req))
                           (form_genre (body req)) (form_year (body req)) True)), s')
              else
                (Inr (Render 200 ''update-book''
                        (UpdateBookValues (drop 7 (url req))
                           (form_title (body req)) (form_author (body req))
                           (form_genre (body req)) (form_year (body req)) True)), s'))
           else (Inr (Render 500 ''error'' NoLocals), s')))"

section \<open>The routes\<close>

definition get_root :: handler where
  "get_root = asyncHandler (\<lambda>req s. (Inr (Redirect ''/books''), s))"

definition get_books :: handler where
  "get_books = asyncHandler (\<lambda>req s. (Inr (Render 200 ''index'' (Books (Book_findAll s))), s))"

definition get_books_new :: handler where
  "get_books_new req s = (Inr (Render 200 ''new-book'' NoLocals), s)"

definition get_books_id :: "sqlite \<Rightarrow> handler" where
  "get_books_id db req s =
     (Inr (Render 200 ''update-book'' (BookInstance (Book_findByPk db (params_id req) s))), s)"

text \<open>
  The search term is \<open>req.body.search\<close>; string concatenation turns an absent field into
  the text \<open>undefined\<close>.
\<close>

definition search_term :: "request \<Rightarrow> ustring" where
  "search_term req =
     (case form_search (body req) of None \<Rightarrow> ustr ''undefined'' | Some str \<Rightarrow> str)"

definition post_root :: handler where
  "post_root = asyncHandler (\<lambda>req s.
     (Inr (Render 200 ''index''
             (Books (Book_findAll_where (search_where (search_term req)) s))), s))"

definition post_books_new :: "sqlite \<Rightarrow> handler" where
  "post_books_new db = asyncHandler (\<lambda>req s.
     (case Book_create db (now req) (body req) s of
        (Inl e, s') \<Rightarrow> (Inl e, s')
      | (Inr b, s') \<Rightarrow> (Inr (Redirect ''/books''), s')))"

text \<open>Calling a method of \<open>null\<close> throws a TypeError.\<close>

definition post_books_id :: "sqlite \<Rightarrow> handler" where
  "post_books_id db = asyncHandler (\<lambda>req s.
     (case Book_findByPk db (params_id req) s of
        None \<Rightarrow> (Inl TypeError, s)
      | Some book \<Rightarrow>
          (case Book_update db (now req) (body req) book s of
             (Inl e, s') \<Rightarrow> (Inl e, s')
           | (Inr b, s') \<Rightarrow> (Inr (Redirect ''/''), s'))))"

definition post_books_id_delete :: "sqlite \<Rightarrow> handler" where
  "post_books_id_delete db req s =
     (case Book_findByPk db (params_id req) s of
        None \<Rightarrow> (Inl TypeError, s)
      | Some book \<Rightarrow> (Inr (Redirect ''/books''), Book_destroy book s))"

text \<open>The response of the 404 handler, for requests that no route matches.\<close>

definition page_not_found :: response where
  "page_not_found = Render 404 ''page-not-found'' NoLocals"

text \<open>The routes of the application, and the states of the store that requests reach.\<close>

datatype route =
    GET_root | GET_books | GET_books_new | GET_books_id
  | POST_root | POST_books_new | POST_books_id | POST_books_id_delete

fun app :: "sqlite \<Rightarrow> route \<Rightarrow> handler" where
  "app db GET_root = get_root"
| "app db GET_books = get_books"
| "app db GET_books_new = get_books_new"
| "app db GET_books_id = get_books_id db"
| "app db POST_root = post_root"
| "app db POST_books_new = post_books_new db"
| "app db POST_books_id = post_books_id db"
| "app db POST_books_id_delete = post_books_id_delete db"

inductive reachable :: "sqlite \<Rightarrow> store \<Rightarrow> bool" for db :: sqlite where
  init: "reachable db empty_store"
| step: "reachable db s \<Longrightarrow> reachable db (snd (app db r req s))"

text \<open>The invariant of the data model: title and author are neither null nor empty.\<close>

definition book_ok :: "book \<Rightarrow> bool" where
  "book_ok b = (title b \<noteq> None \<and> title b \<noteq> Some [] \<and> author b \<noteq> None \<and> author b \<noteq> Some [])"

definition store_ok :: "store \<Rightarrow> bool" where
  "store_ok s = list_all book_ok (rows s)"

section \<open>The search as the specification words it\<close>

text \<open>
  The specification's wording of the search: a record matches when the term is a
  substring of its title, author, genre or year. \<open>spec_search_matches\<close> follows those
  words and is compared with \<open>search_where\<close>, which follows the source;
  \<open>search_matches_nocase\<close> is the same with containment up to the case of ASCII
  letters.
\<close>

definition column_contains :: "ustring \<Rightarrow> ustring option \<Rightarrow> bool" where
  "column_contains t v = (case v of None \<Rightarrow> False | Some str \<Rightarrow> sublist t str)"

definition spec_search_matches :: "ustring \<Rightarrow> book \<Rightarrow> bool" where
  "spec_search_matches t b =
     (column_contains t (title b) \<or> column_contains t (author b)
      \<or> column_contains t (genre b) \<or> column_contains t (map_option sql_text (year b)))"

definition column_contains_nocase :: "ustring \<Rightarrow> ustring option \<Rightarrow> bool" where
  "column_contains_nocase t v =
     (case v of None \<Rightarrow> False | Some str \<Rightarrow> sublist (map ascii_upper t) (map ascii_upper str))"

definition search_matches_nocase :: "ustring \<Rightarrow> book \<Rightarrow> bool" where
  "search_matches_nocase t b =
     (column_contains_nocase t (title b) \<or> column_contains_nocase t (author b)
      \<or> column_contains_nocase t (genre b)
      \<or> column_contains_nocase t (map_option sql_text (year b)))"

section \<open>Example data\<close>

text \<open>
  The engine of the examples reads decimal numerals: a text of one to eighteen digits
  is the number it writes (leading zeros do not count), as in SQLite. Every other text
  is no key and is stored as text, which is what SQLite does when the text is not a
  number; the examples use no text that SQLite reads as a number in another form.
\<close>

definition is_digit :: "nat \<Rightarrow> bool" where
  "is_digit c = (48 \<le> c \<and> c \<le> 57)"

definition decimal :: "ustring \<Rightarrow> bool" where
  "decimal str = (str \<noteq> [] \<and> length str \<le> 18 \<and> list_all is_digit str)"

definition decimal_value :: "ustring \<Rightarrow> nat" where
  "decimal_value str = fold (\<lambda>c n. 10 * n + (c - 48)) str 0"

definition canonical :: "ustring \<Rightarrow> ustring" where
  "canonical str = (if dropWhile (\<lambda>c. c = 48) str = [] then [48] else dropWhile (\<lambda>c. c = 48) str)"

definition example_engine :: sqlite where
  "example_engine =
     \<lparr>key_of = (\<lambda>str. if decimal str then Some (decimal_value str) else None),
      integer_affinity = (\<lambda>str. if decimal str then SqlNumber (canonical str) else SqlText str)\<rparr>"

definition book1 :: book where
  "book1 = \<lparr>book_id = 1, title = Some (ustr ''Emma''), author = Some (ustr ''Jane Austen''),
             genre = Some (ustr ''Classic''), year = Some (SqlNumber (ustr ''1815'')),
             createdAt = 100, updatedAt = 100\<rparr>"

definition book2 :: book where
  "book2 = \<lparr>book_id = 2, title = Some (ustr ''Dune''), author = Some (ustr ''Frank Herbert''),
             genre = None, year = None, createdAt = 200, updatedAt = 200\<rparr>"

definition library :: store where
  "library = \<lparr>rows = [book1, book2], seq = 2\<rparr>"

definition form_of :: "string \<Rightarrow> string \<Rightarrow> string \<Rightarrow> string \<Rightarrow> form" where
  "form_of t a g y =
     \<lparr>form_title = Some (ustr t), form_author = Some (ustr a), form_genre = Some (ustr g),
      form_year = Some (ustr y), form_search = None\<rparr>"

definition search_for :: "string \<Rightarrow> form" where
  "search_for t =
     \<lparr>form_title = None, form_author = None, form_genre = None, form_year = None,
      form_search = Some (ustr t)\<rparr>"

definition no_fields :: form where
  "no_fields =
     \<lparr>form_title = None, form_author = None, form_genre = None, form_year = None,
      form_search = None\<rparr>"

lemmas example_defs = book1_def book2_def library_def form_of_def search_for_def no_fields_def
  empty_store_def example_engine_def ustr_def decimal_def decimal_value_def canonical_def
  is_digit_def

section \<open>Properties of LIKE\<close>

text \<open>
  Between two \<open>%\<close>, a term without wildcards matches exactly the strings that contain
  it, up to the case of ASCII letters.
\<close>

lemma like_percent_all: "like [37] str"
  by (induction str) auto

lemma like_percent_Cons:
  "like (37 # q) str \<longleftrightarrow> (\<exists>pre post. str = pre @ post \<and> like q post)"
proof (induction str)
  case Nil
  then show ?case by simp
next
  case (Cons c cs)
  then show ?case by (auto simp: Cons_eq_append_conv)
qed

lemma like_literal_percent:
  "wildcard_free t \<Longrightarrow>
   like (t @ [37]) str \<longleftrightarrow> (\<exists>mid post. str = mid @ post \<and> map ascii_upper mid = map ascii_upper t)"
proof (induction t arbitrary: str)
  case Nil
  then show ?case by (simp add: like_percent_all)
next
  case (Cons p t)
  then have wf: "wildcard_free t" and p: "p \<noteq> 37" "p \<noteq> 95"
    by (auto simp: wildcard_free_def)
  show ?case
  proof (cases str)
    case Nil
    then show ?thesis using p by simp
  next
    case (Cons c cs)
    have step: "like ((p # t) @ [37]) (c # cs) \<longleftrightarrow>
        ascii_upper p = ascii_upper c \<and>
        (\<exists>mid post. cs = mid @ post \<and> map ascii_upper mid = map ascii_upper t)"
      using p Cons.IH[OF wf, of cs] by simp
    have "(ascii_upper p = ascii_upper c \<and>
        (\<exists>mid post. cs = mid @ post \<and> map ascii_upper mid = map ascii_upper t)) \<longleftrightarrow>
        (\<exists>mid post. c # cs = mid @ post \<and> map ascii_upper mid = map ascii_upper (p # t))"
    proof
      assume "ascii_upper p = ascii_upper c \<and>
        (\<exists>mid post. cs = mid @ post \<and> map ascii_upper mid = map ascii_upper t)"
      then obtain mid post where "ascii_upper p = ascii_upper c" "cs = mid @ post"
        "map ascii_upper mid = map ascii_upper t" by blast
      then have "c # cs = (c # mid) @ post \<and> map ascii_upper (c # mid) = map ascii_upper (p # t)"
        by simp
      then show "\<exists>mid post. c # cs = mid @ post \<and> map ascii_upper mid = map ascii_upper (p # t)"
        by blast
    next
      assume "\<exists>mid post. c # cs = mid @ post \<and> map ascii_upper mid = map ascii_upper (p # t)"
      then obtain mid post where m: "c # cs = mid @ post"
        "map ascii_upper mid = map ascii_upper (p # t)" by blast
      then obtain m ms where "mid = m # ms" by (cases mid) auto
      with m show "ascii_upper p = ascii_upper c \<and>
        (\<exists>mid post. cs = mid @ post \<and> map ascii_upper mid = map ascii_upper t)" by auto
    qed
    with step show ?thesis using Cons by simp
  qed
qed

lemma sublist_map_iff:
  "sublist (map f t) (map f str) \<longleftrightarrow> (\<exists>pre mid post. str = pre @ mid @ post \<and> map f mid = map f t)"
proof
  assume "sublist (map f t) (map f str)"
  then obtain ps ss where "map f str = ps @ map f t @ ss" by (auto simp: sublist_def)
  then have "\<exists>us vs. str = us @ vs \<and> ps = map f us \<and> map f t @ ss = map f vs"
    by (simp add: map_eq_append_conv)
  then obtain pre rest where 1: "str = pre @ rest" "map f t @ ss = map f rest" by blast
  from 1(2) have "\<exists>us vs. rest = us @ vs \<and> map f t = map f us \<and> ss = map f vs"
    by (simp add: append_eq_map_conv)
  then obtain mid post where "rest = mid @ post" "map f mid = map f t" by auto
  with 1 show "\<exists>pre mid post. str = pre @ mid @ post \<and> map f mid = map f t" by blast
next
  assume "\<exists>pre mid post. str = pre @ mid @ post \<and> map f mid = map f t"
  then obtain pre mid post where "str = pre @ mid @ post" "map f mid = map f t" by blast
  then have "map f str = map f pre @ map f t @ map f post" by simp
  then show "sublist (map f t) (map f str)" unfolding sublist_def by blast
qed

lemma like_contains:
  assumes "wildcard_free t"
  shows "like ([37] @ t @ [37]) str \<longleftrightarrow> sublist (map ascii_upper t) (map ascii_upper str)"
proof -
  have "like ([37] @ t @ [37]) str \<longleftrightarrow>
        (\<exists>pre post. str = pre @ post \<and> like (t @ [37]) post)"
    using like_percent_Cons[of "t @ [37]" str] by simp
  also have "\<dots> \<longleftrightarrow> (\<exists>pre mid post. str = pre @ mid @ post \<and> map ascii_upper mid = map ascii_upper t)"
    using like_literal_percent[OF assms] by blast
  finally show ?thesis by (simp add: sublist_map_iff)
qed


section \<open>Validation and key generation\<close>

lemma ustr_percent: "ustr ''%'' = [37]"
  by (simp add: ustr_def)

lemmas route_defs = get_root_def get_books_def get_books_new_def get_books_id_def
  post_root_def post_books_new_def post_books_id_def post_books_id_delete_def

lemma notEmpty_Nil: "\<not> notEmpty []"
  by (simp add: notEmpty_def)

lemma validate_on_create_ok:
  "validate_on_create v \<Longrightarrow> v \<noteq> None \<and> v \<noteq> Some []"
  by (auto simp: validate_on_create_def notEmpty_Nil split: option.splits)

lemma fold_max_ge: "a \<le> fold max xs (a::nat)"
  by (induction xs arbitrary: a) (auto intro: order_trans[OF max.cobounded2])

lemma fold_max_mem: "x \<in> set xs \<Longrightarrow> x \<le> fold max xs (a::nat)"
proof (induction xs arbitrary: a)
  case Nil
  then show ?case by simp
next
  case (Cons y ys)
  show ?case
  proof (cases "x = y")
    case True
    have "y \<le> max y a" by simp
    also have "\<dots> \<le> fold max ys (max y a)" by (rule fold_max_ge)
    finally show ?thesis using True by simp
  next
    case False
    with Cons show ?thesis by simp
  qed
qed

lemma next_id_fresh: "b \<in> set (rows s) \<Longrightarrow> book_id b < next_id s"
  using fold_max_mem[of "book_id b" "map book_id (rows s)" "seq s"]
  by (simp add: next_id_def less_Suc_eq_le)

section \<open>Creating a book\<close>

text \<open>
  Claim C2. A post to \<open>/books/new\<close> whose title field is the empty string, whatever its
  author, genre and year: \<open>Book.create\<close> fails with a validation error and leaves the
  store as it was, and the response renders the view \<open>new-book\<close> again with the
  submitted author, genre and year and with the alert flag true.
\<close>

theorem create_empty_title_rerenders_form:
  assumes "url req = ''/books/new''" and "form_title (body req) = Some []"
  shows "Book_create db (now req) (body req) s = (Inl SequelizeValidationError, s)
       \<and> post_books_new db req s =
           (Inr (Render 200 ''new-book''
                   (NewBookValues (Some []) (form_author (body req)) (form_genre (body req))
                      (form_year (body req)) True)), s)"
  using assms
  by (simp add: post_books_new_def asyncHandler_def Book_create_def validate_on_create_def
      notEmpty_Nil)

theorem create_empty_title_rerenders_form_witness:
  "post_books_new example_engine
     \<lparr>url = ''/books/new'', params_id = [],
      body = form_of [] ''Jane Austen'' ''Classic'' ''1815'', now = 300\<rparr> library
   = (Inr (Render 200 ''new-book''
            (NewBookValues (Some []) (Some (ustr ''Jane Austen'')) (Some (ustr ''Classic''))
               (Some (ustr ''1815'')) True)),
      library)"
  using create_empty_title_rerenders_form
    [of "\<lparr>url = ''/books/new'', params_id = [],
          body = form_of [] ''Jane Austen'' ''Classic'' ''1815'', now = 300\<rparr>"
        example_engine library]
  by (simp add: form_of_def ustr_def)




section \<open>Searching\<close>

lemma like_two_percent: "like [37, 37] str"
  using like_percent_Cons[of "[37]" str] like_percent_all by auto

lemma search_where_empty: "title b \<noteq> None \<Longrightarrow> search_where [] b"
  using like_two_percent by (auto simp: search_where_def column_like_def ustr_percent)

text \<open>
  Claim C5. In a store whose records all have a title and an author that are neither
  null nor empty, the search with the empty term lists every record of the store, in the
  same order: it gives the response of the listing route \<open>GET /books\<close>. Records whose
  genre or year is null are listed too.
\<close>

theorem search_empty_term_lists_all:
  assumes "store_ok s" and "form_search (body req) = Some []"
  shows "post_root req s = (Inr (Render 200 ''index'' (Books (rows s))), s)
       \<and> post_root req s = get_books req s"
proof -
  have "\<forall>b \<in> set (rows s). search_where [] b"
    using assms(1) by (auto simp: store_ok_def book_ok_def list_all_iff intro: search_where_empty)
  then have "filter (search_where []) (rows s) = rows s"
    by (simp add: filter_id_conv)
  then show ?thesis using assms(2)
    by (simp add: post_root_def get_books_def asyncHandler_def search_term_def
        Book_findAll_where_def Book_findAll_def)
qed

theorem search_empty_term_lists_all_witness:
  "store_ok library
   \<and> post_root \<lparr>url = ''/'', params_id = [], body = search_for [], now = 300\<rparr> library
     = (Inr (Render 200 ''index'' (Books [book1, book2])), library)"
proof -
  have ok: "store_ok library" by (simp add: store_ok_def book_ok_def example_defs)
  show ?thesis
    using ok search_empty_term_lists_all[OF ok,
        of "\<lparr>url = ''/'', params_id = [], body = search_for [], now = 300\<rparr>"]
    by (simp add: search_for_def library_def ustr_def)
qed

section \<open>The invariant of the store\<close>

lemma validate_on_update_ok:
  "validate_on_update v \<Longrightarrow> v \<noteq> Some []"
  by (auto simp: validate_on_update_def notEmpty_Nil split: option.splits)

lemma Book_create_ok: "store_ok s \<Longrightarrow> store_ok (snd (Book_create db t f s))"
  by (auto simp: Book_create_def store_ok_def book_ok_def Let_def dest: validate_on_create_ok)

lemma write_values_ok:
  assumes "validate_on_update (form_title f)" "validate_on_update (form_author f)" "book_ok r"
  shows "book_ok (write_values db t f r)"
  using assms validate_on_update_ok[of "form_title f"] validate_on_update_ok[of "form_author f"]
  by (auto simp: write_values_def book_ok_def split: option.splits)

lemma Book_update_ok: "store_ok s \<Longrightarrow> store_ok (snd (Book_update db t f b s))"
  by (auto simp: Book_update_def store_ok_def list_all_iff intro: write_values_ok)

lemma Book_destroy_ok: "store_ok s \<Longrightarrow> store_ok (Book_destroy b s)"
  by (auto simp: Book_destroy_def store_ok_def list_all_iff)

lemma asyncHandler_store: "snd (asyncHandler cb req s) = snd (cb req s)"
  by (auto simp: asyncHandler_def split: prod.splits sum.splits)

lemma app_store_ok:
  assumes "store_ok s"
  shows "store_ok (snd (app db r req s))"
proof (cases r)
  case POST_books_new
  have "snd (app db r req s) = snd (Book_create db (now req) (body req) s)"
    unfolding POST_books_new
    by (simp add: post_books_new_def asyncHandler_store split: prod.splits sum.splits)
  then show ?thesis using assms by (simp add: Book_create_ok)
next
  case POST_books_id
  show ?thesis
  proof (cases "Book_findByPk db (params_id req) s")
    case None
    then show ?thesis using assms unfolding POST_books_id
      by (simp add: post_books_id_def asyncHandler_store)
  next
    case (Some b)
    then have "snd (app db r req s) = snd (Book_update db (now req) (body req) b s)"
      unfolding POST_books_id
      by (simp add: post_books_id_def asyncHandler_store split: prod.splits sum.splits)
    then show ?thesis using assms by (simp add: Book_update_ok)
  qed
next
  case POST_books_id_delete
  then show ?thesis using assms
    by (simp add: post_books_id_delete_def Book_destroy_ok split: option.splits)
qed (use assms in \<open>simp_all add: route_defs asyncHandler_store\<close>)

lemma reachable_store_ok: "reachable db s \<Longrightarrow> store_ok s"
proof (induction rule: reachable.induct)
  case init
  show ?case by (simp add: store_ok_def empty_store_def)
next
  case (step s r req)
  then show ?case by (simp add: app_store_ok)
qed

lemma Book_create_rejects:
  "form_title f = None \<or> form_title f = Some [] \<or> form_author f = None \<or> form_author f = Some []
   \<Longrightarrow> Book_create db t f s = (Inl SequelizeValidationError, s)"
  by (auto simp: Book_create_def validate_on_create_def notEmpty_Nil)

lemma Book_update_rejects:
  "form_title f = Some [] \<or> form_author f = Some []
   \<Longrightarrow> Book_update db t f b s = (Inl SequelizeValidationError, s)"
  by (auto simp: Book_update_def validate_on_update_def notEmpty_Nil)

lemma Book_create_error_unchanged:
  "fst (Book_create db t f s) = Inl e \<Longrightarrow> snd (Book_create db t f s) = s"
  by (auto simp: Book_create_def Let_def split: if_splits)

lemma Book_update_error_unchanged:
  "fst (Book_update db t f b s) = Inl e \<Longrightarrow> snd (Book_update db t f b s) = s"
  by (auto simp: Book_update_def split: if_splits)

text \<open>
  Claim C1. Every store reached from the empty table by requests to the routes holds
  only records whose title and author are neither null nor empty, and every route
  keeps that property of any store. A create whose title or author is missing or empty,
  and an update whose title or author is empty, ends with a validation error and the
  store as it was; a write that ends with an error never changes the store.
\<close>

theorem title_author_invariant:
  "(reachable db s \<longrightarrow> store_ok s)
   \<and> (store_ok s \<longrightarrow> store_ok (snd (app db r req s)))
   \<and> (form_title f = None \<or> form_title f = Some [] \<or> form_author f = None \<or> form_author f = Some []
        \<longrightarrow> Book_create db t f s = (Inl SequelizeValidationError, s))
   \<and> (form_title f = Some [] \<or> form_author f = Some []
        \<longrightarrow> Book_update db t f b s = (Inl SequelizeValidationError, s))
   \<and> (fst (Book_create db t f s) = Inl e \<longrightarrow> snd (Book_create db t f s) = s)
   \<and> (fst (Book_update db t f b s) = Inl e \<longrightarrow> snd (Book_update db t f b s) = s)"
proof (intro conjI impI)
  show "store_ok s" if "reachable db s"
    using that by (rule reachable_store_ok)
  show "store_ok (snd (app db r req s))" if "store_ok s"
    using that by (rule app_store_ok)
  show "Book_create db t f s = (Inl SequelizeValidationError, s)"
    if "form_title f = None \<or> form_title f = Some [] \<or> form_author f = None \<or> form_author f = Some []"
    using that by (rule Book_create_rejects)
  show "Book_update db t f b s = (Inl SequelizeValidationError, s)"
    if "form_title f = Some [] \<or> form_author f = Some []"
    using that by (rule Book_update_rejects)
  show "snd (Book_create db t f s) = s" if "fst (Book_create db t f s) = Inl e"
    using that by (rule Book_create_error_unchanged)
  show "snd (Book_update db t f b s) = s" if "fst (Book_update db t f b s) = Inl e"
    using that by (rule Book_update_error_unchanged)
qed

lemma post_new_example:
  "snd (app example_engine POST_books_new
          \<lparr>url = ''/books/new'', params_id = [],
           body = form_of ''Emma'' ''Jane Austen'' ''Classic'' ''1815'', now = 100\<rparr> empty_store)
   = \<lparr>rows = [book1], seq = 1\<rparr>"
  by (simp add: post_books_new_def asyncHandler_def Book_create_def validate_on_create_def
      notEmpty_def is_space_def next_id_def example_defs Let_def)

theorem title_author_invariant_witness:
  "reachable example_engine \<lparr>rows = [book1], seq = 1\<rparr>
   \<and> store_ok \<lparr>rows = [book1], seq = 1\<rparr>
   \<and> store_ok library
   \<and> store_ok (snd (app example_engine POST_books_id
         \<lparr>url = ''/books/2'', params_id = ustr ''2'',
          body = form_of ''Dune'' ''F. Herbert'' ''SF'' ''1965'', now = 300\<rparr> library))
   \<and> Book_create example_engine 300 (form_of [] ''Jane Austen'' ''Classic'' ''1815'') library
       = (Inl SequelizeValidationError, library)
   \<and> Book_update example_engine 300 (form_of ''Emma'' [] ''Classic'' ''1815'') book1 library
       = (Inl SequelizeValidationError, library)"
proof -
  let ?s1 = "\<lparr>rows = [book1], seq = 1\<rparr>"
  have r: "reachable example_engine ?s1"
    using reachable.step[OF reachable.init, of example_engine POST_books_new
        "\<lparr>url = ''/books/new'', params_id = [],
          body = form_of ''Emma'' ''Jane Austen'' ''Classic'' ''1815'', now = 100\<rparr>"]
    by (simp only: post_new_example)
  have ok: "store_ok library"
    by (simp add: store_ok_def book_ok_def example_defs)
  have 1: "store_ok ?s1"
    using r title_author_invariant[where s = ?s1 and db = example_engine] by blast
  have 2: "store_ok (snd (app example_engine POST_books_id
         \<lparr>url = ''/books/2'', params_id = ustr ''2'',
          body = form_of ''Dune'' ''F. Herbert'' ''SF'' ''1965'', now = 300\<rparr> library))"
    using ok title_author_invariant[where s = library and r = POST_books_id] by blast
  have 3: "Book_create example_engine 300 (form_of [] ''Jane Austen'' ''Classic'' ''1815'') library
       = (Inl SequelizeValidationError, library)"
    using title_author_invariant[where s = library
        and f = "form_of [] ''Jane Austen'' ''Classic'' ''1815''"]
    by (simp add: form_of_def ustr_def)
  have 4: "Book_update example_engine 300 (form_of ''Emma'' [] ''Classic'' ''1815'') book1 library
       = (Inl SequelizeValidationError, library)"
    using title_author_invariant[where s = library and b = book1
        and f = "form_of ''Emma'' [] ''Classic'' ''1815''"]
    by (simp add: form_of_def ustr_def)
  from r 1 ok 2 3 4 show ?thesis by blast
qed

section \<open>Updating a book\<close>

lemma Book_findByPk_Some:
  "Book_findByPk db pk s = Some b \<Longrightarrow> b \<in> set (rows s) \<and> key_of db pk = Some (book_id b)"
  by (auto simp: Book_findByPk_def find_Some_iff split: option.splits)

lemma book_id_write_values: "book_id (write_values db t f r) = book_id r"
  by (simp add: write_values_def)

lemma createdAt_write_values: "createdAt (write_values db t f r) = createdAt r"
  by (simp add: write_values_def)

text \<open>
  Claim C6, as stated, fails: an update also changes \<open>updatedAt\<close>, a column that is not
  among the submitted fields. Updating the second record of the example store at the
  time 900 moves its \<open>updatedAt\<close> from 200 to 900.
\<close>

theorem update_rewrites_updatedAt_counterexample:
  "post_books_id example_engine
     \<lparr>url = ''/books/2'', params_id = ustr ''2'',
      body = form_of ''Dune'' ''F. Herbert'' ''SF'' ''1965'', now = 900\<rparr> library
   = (Inr (Redirect ''/''),
      \<lparr>rows = [book1,
                \<lparr>book_id = 2, title = Some (ustr ''Dune''), author = Some (ustr ''F. Herbert''),
                   genre = Some (ustr ''SF''), year = Some (SqlNumber (ustr ''1965'')),
                   createdAt = 200, updatedAt = 900\<rparr>], seq = 2\<rparr>)
   \<and> updatedAt book2 = 200"
  by (simp add: post_books_id_def asyncHandler_def Book_findByPk_def Book_update_def
      validate_on_update_def notEmpty_def is_space_def changed_def write_values_def example_defs)

text \<open>
  Claim C6, amended. An update of an existing record with a title and an author keeps the
  number and the order of the rows and the key counter; every row keeps its key and its
  \<open>createdAt\<close>, and every row with another key than the target is unchanged. When the
  title and the author pass the validation (in particular they are not empty), the
  response redirects to \<open>/\<close>; the target row stays as it is when no submitted field
  differs from the value read, and otherwise gets the submitted fields (the year as the
  integer column stores it) and the time of the request as \<open>updatedAt\<close>, its absent
  fields staying.
\<close>

theorem update_changes_only_target:
  assumes "Book_findByPk db (params_id req) s = Some b"
    and "form_title (body req) = Some t" and "form_author (body req) = Some a"
  shows "length (rows (snd (post_books_id db req s))) = length (rows s)
       \<and> seq (snd (post_books_id db req s)) = seq s
       \<and> (\<forall>k < length (rows s).
            book_id (rows (snd (post_books_id db req s)) ! k) = book_id (rows s ! k)
            \<and> createdAt (rows (snd (post_books_id db req s)) ! k) = createdAt (rows s ! k)
            \<and> (book_id (rows s ! k) \<noteq> book_id b
                 \<longrightarrow> rows (snd (post_books_id db req s)) ! k = rows s ! k)
            \<and> (book_id (rows s ! k) = book_id b \<and> notEmpty t \<and> notEmpty a
                 \<longrightarrow> rows (snd (post_books_id db req s)) ! k =
                      (if changed (body req) b then
                         (rows s ! k)\<lparr>title := Some t, author := Some a,
                           genre := (case form_genre (body req) of
                                       None \<Rightarrow> genre (rows s ! k) | Some v \<Rightarrow> Some v),
                           year := (case form_year (body req) of
                                      None \<Rightarrow> year (rows s ! k)
                                    | Some v \<Rightarrow> Some (integer_affinity db v)),
                           updatedAt := now req\<rparr>
                       else rows s ! k)))
       \<and> (notEmpty t \<and> notEmpty a \<longrightarrow> fst (post_books_id db req s) = Inr (Redirect ''/''))"
proof (cases "notEmpty t \<and> notEmpty a")
  case True
  show ?thesis
  proof (cases "changed (body req) b")
    case c: True
    have "post_books_id db req s =
      (Inr (Redirect ''/''),
       s\<lparr>rows := map (\<lambda>r. if book_id r = book_id b
                            then write_values db (now req) (body req) r else r) (rows s)\<rparr>)"
      using assms True c
      by (simp add: post_books_id_def asyncHandler_def Book_update_def validate_on_update_def)
    then show ?thesis using assms(2,3) True c
      by (auto simp: book_id_write_values createdAt_write_values write_values_def)
  next
    case c: False
    have "post_books_id db req s = (Inr (Redirect ''/''), s)"
      using assms True c
      by (simp add: post_books_id_def asyncHandler_def Book_update_def validate_on_update_def)
    then show ?thesis using c by simp
  qed
next
  case False
  then have "post_books_id db req s =
      (Inr (Render 200 ''update-book''
              (UpdateBookValues (drop 7 (url req)) (form_title (body req)) (form_author (body req))
                 (form_genre (body req)) (form_year (body req)) True)), s)
    \<or> post_books_id db req s =
      (Inr (Render 200 ''new-book''
              (NewBookValues (form_title (body req)) (form_author (body req))
                 (form_genre (body req)) (form_year (body req)) True)), s)"
    using assms
    by (auto simp: post_books_id_def asyncHandler_def Book_update_def validate_on_update_def)
  then show ?thesis using False by auto
qed

theorem update_changes_only_target_witness:
  "Book_findByPk example_engine (ustr ''2'') library = Some book2
   \<and> rows (snd (post_books_id example_engine
        \<lparr>url = ''/books/2'', params_id = ustr ''2'',
         body = form_of ''Dune'' ''F. Herbert'' ''SF'' ''1965'', now = 900\<rparr> library)) ! 0 = book1
   \<and> rows (snd (post_books_id example_engine
        \<lparr>url = ''/books/2'', params_id = ustr ''2'',
         body = form_of ''Dune'' ''F. Herbert'' ''SF'' ''1965'', now = 900\<rparr> library)) ! 1
     = \<lparr>book_id = 2, title = Some (ustr ''Dune''), author = Some (ustr ''F. Herbert''),
        genre = Some (ustr ''SF''), year = Some (SqlNumber (ustr ''1965'')),
        createdAt = 200, updatedAt = 900\<rparr>"
proof -
  let ?req = "\<lparr>url = ''/books/2'', params_id = ustr ''2'',
         body = form_of ''Dune'' ''F. Herbert'' ''SF'' ''1965'', now = 900\<rparr>"
  have f: "Book_findByPk example_engine (ustr ''2'') library = Some book2"
    by (simp add: Book_findByPk_def example_defs)
  have t: "notEmpty (ustr ''Dune'')" and a: "notEmpty (ustr ''F. Herbert'')"
    by (simp_all add: notEmpty_def is_space_def ustr_def)
  have c: "changed (body ?req) book2"
    by (simp add: changed_def example_defs)
  note inst = update_changes_only_target[where db = example_engine and b = book2 and s = library
        and t = "ustr ''Dune''" and a = "ustr ''F. Herbert''" and req = ?req]
  have 0: "rows (snd (post_books_id example_engine ?req library)) ! 0 = book1"
    using f inst by (simp add: example_defs)
  have 1: "rows (snd (post_books_id example_engine ?req library)) ! 1
     = \<lparr>book_id = 2, title = Some (ustr ''Dune''), author = Some (ustr ''F. Herbert''),
        genre = Some (ustr ''SF''), year = Some (SqlNumber (ustr ''1965'')),
        createdAt = 200, updatedAt = 900\<rparr>"
    using f t a c inst by (simp add: example_defs)
  from f 0 1 show ?thesis by blast
qed

section \<open>Searching with a term\<close>

lemma column_like_contains:
  "wildcard_free t \<Longrightarrow> column_like (ustr ''%'' @ t @ ustr ''%'') v = column_contains_nocase t v"
  using like_contains[of t]
  by (simp add: column_like_def column_contains_nocase_def ustr_percent split: option.splits)

lemma search_where_nocase:
  "wildcard_free t \<Longrightarrow> search_where t = search_matches_nocase t"
  by (rule ext) (simp only: search_where_def search_matches_nocase_def column_like_contains)

text \<open>
  Claim C4, as stated, fails: the term is not compared as a substring but used inside a
  LIKE pattern. The term \<open>%\<close> occurs in no field of the example records, and the
  search for it lists both of them.
\<close>

theorem search_wildcard_counterexample:
  "post_root \<lparr>url = ''/'', params_id = [], body = search_for ''%'', now = 300\<rparr> library
     = (Inr (Render 200 ''index'' (Books [book1, book2])), library)
   \<and> filter (spec_search_matches (ustr ''%'')) (rows library) = []"
  by (simp add: post_root_def asyncHandler_def search_term_def Book_findAll_where_def
      search_where_def column_like_def spec_search_matches_def column_contains_def
      sublist_code example_defs)

text \<open>
  Claim C4, amended. The search route lists exactly the records of which the title, the
  author, the genre or the year matches the LIKE pattern made of the term between two
  \<open>%\<close>, in storage order and without changing the store. For a term with neither
  \<open>%\<close> nor \<open>_\<close> these are exactly the records that contain the term in one of the
  four fields, up to the case of ASCII letters; a null field contains nothing.
\<close>

theorem search_returns_like_matches:
  "post_root req s =
     (Inr (Render 200 ''index'' (Books (filter (search_where (search_term req)) (rows s)))), s)
   \<and> (wildcard_free (search_term req) \<longrightarrow>
        post_root req s =
          (Inr (Render 200 ''index''
                  (Books (filter (search_matches_nocase (search_term req)) (rows s)))), s))"
  by (simp add: post_root_def asyncHandler_def Book_findAll_where_def search_where_nocase)

theorem search_returns_like_matches_witness:
  "wildcard_free (ustr ''classic'')
   \<and> post_root \<lparr>url = ''/'', params_id = [], body = search_for ''classic'', now = 300\<rparr> library
      = (Inr (Render 200 ''index'' (Books [book1])), library)
   \<and> wildcard_free (ustr ''zzz'')
   \<and> post_root \<lparr>url = ''/'', params_id = [], body = search_for ''zzz'', now = 300\<rparr> library
      = (Inr (Render 200 ''index'' (Books [])), library)"
proof -
  have w1: "wildcard_free (ustr ''classic'')" and w2: "wildcard_free (ustr ''zzz'')"
    by (simp_all add: wildcard_free_def ustr_def)
  have m1: "filter (search_matches_nocase (ustr ''classic'')) (rows library) = [book1]"
    by (simp add: search_matches_nocase_def column_contains_nocase_def ascii_upper_def
        sublist_code example_defs)
  have m2: "filter (search_matches_nocase (ustr ''zzz'')) (rows library) = []"
    by (simp add: search_matches_nocase_def column_contains_nocase_def ascii_upper_def
        sublist_code example_defs)
  have 1: "post_root \<lparr>url = ''/'', params_id = [], body = search_for ''classic'', now = 300\<rparr> library
      = (Inr (Render 200 ''index'' (Books [book1])), library)"
    using w1 m1 search_returns_like_matches[where s = library
        and req = "\<lparr>url = ''/'', params_id = [], body = search_for ''classic'', now = 300\<rparr>",
        THEN conjunct2]
    by (simp add: search_term_def search_for_def)
  have 2: "post_root \<lparr>url = ''/'', params_id = [], body = search_for ''zzz'', now = 300\<rparr> library
      = (Inr (Render 200 ''index'' (Books [])), library)"
    using w2 m2 search_returns_like_matches[where s = library
        and req = "\<lparr>url = ''/'', params_id = [], body = search_for ''zzz'', now = 300\<rparr>",
        THEN conjunct2]
    by (simp add: search_term_def search_for_def)
  from w1 w2 1 2 show ?thesis by blast
qed

section \<open>Deleting a book\<close>

text \<open>Requests never produce two rows with one key.\<close>

lemma app_distinct_keys:
  assumes "distinct (map book_id (rows s))"
  shows "distinct (map book_id (rows (snd (app db r req s))))"
proof (cases r)
  case POST_books_new
  have fresh: "next_id s \<notin> book_id ` set (rows s)"
  proof
    assume "next_id s \<in> book_id ` set (rows s)"
    then obtain x where "x \<in> set (rows s)" "book_id x = next_id s" by auto
    then show False using next_id_fresh[of x s] by simp
  qed
  have "snd (app db r req s) = snd (Book_create db (now req) (body req) s)"
    unfolding POST_books_new
    by (simp add: post_books_new_def asyncHandler_store split: prod.splits sum.splits)
  then show ?thesis using assms fresh by (simp add: Book_create_def Let_def)
next
  case POST_books_id
  have keys: "map (book_id \<circ> (\<lambda>r. if book_id r = k then write_values db t f r else r)) rs
      = map book_id rs"
    for k t f rs by (induction rs) (simp_all add: book_id_write_values)
  show ?thesis
  proof (cases "Book_findByPk db (params_id req) s")
    case None
    then show ?thesis using assms unfolding POST_books_id
      by (simp add: post_books_id_def asyncHandler_store)
  next
    case (Some b)
    then have "snd (app db r req s) = snd (Book_update db (now req) (body req) b s)"
      unfolding POST_books_id
      by (simp add: post_books_id_def asyncHandler_store split: prod.splits sum.splits)
    then show ?thesis using assms by (simp add: Book_update_def keys)
  qed
next
  case POST_books_id_delete
  then show ?thesis using assms
    by (simp add: post_books_id_delete_def Book_destroy_def distinct_map_filter split: option.splits)
qed (use assms in \<open>simp_all add: route_defs asyncHandler_store\<close>)

lemma reachable_distinct_keys: "reachable db s \<Longrightarrow> distinct (map book_id (rows s))"
proof (induction rule: reachable.induct)
  case init
  show ?case by (simp add: empty_store_def)
next
  case (step s r req)
  then show ?case by (simp add: app_distinct_keys)
qed

lemma filter_other_keys:
  "distinct (map book_id rs) \<Longrightarrow> b \<in> set rs
   \<Longrightarrow> filter (\<lambda>r. book_id r \<noteq> book_id b) rs = remove1 b rs"
proof (induction rs)
  case Nil
  then show ?case by simp
next
  case (Cons r rs)
  show ?case
  proof (cases "r = b")
    case True
    have "\<forall>x \<in> set rs. book_id x \<noteq> book_id b"
    proof
      fix x assume "x \<in> set rs"
      then have "book_id x \<in> set (map book_id rs)" by simp
      moreover have "book_id r \<notin> set (map book_id rs)" using Cons.prems(1) by simp
      ultimately show "book_id x \<noteq> book_id b" using True by metis
    qed
    then have "filter (\<lambda>r. book_id r \<noteq> book_id b) rs = rs" by (simp add: filter_id_conv)
    then show ?thesis using True by simp
  next
    case False
    then have "b \<in> set rs" using Cons.prems(2) by simp
    moreover have "book_id r \<noteq> book_id b" using Cons.prems(1) \<open>b \<in> set rs\<close> by auto
    ultimately show ?thesis using Cons False by simp
  qed
qed

lemma Book_findByPk_after_destroy:
  assumes "Book_findByPk db pk s = Some b"
  shows "Book_findByPk db pk (Book_destroy b s) = None"
  using Book_findByPk_Some[OF assms]
  by (auto simp: Book_findByPk_def Book_destroy_def find_None_iff)

text \<open>
  Claim C7. Deleting an existing record, in a table whose keys are distinct, redirects to
  \<open>/books\<close> and removes that record and no other: the rows are the old rows without
  it, in the same order, the listing that follows does not show it, and fetching its key
  again finds nothing (\<open>GET /books/:id\<close> then renders the update form with no book).
\<close>

theorem delete_removes_exactly_that_record:
  assumes "Book_findByPk db (params_id req) s = Some b"
    and "distinct (map book_id (rows s))"
  shows "fst (post_books_id_delete db req s) = Inr (Redirect ''/books'')
       \<and> rows (snd (post_books_id_delete db req s)) = remove1 b (rows s)
       \<and> seq (snd (post_books_id_delete db req s)) = seq s
       \<and> b \<in> set (rows s)
       \<and> b \<notin> set (Book_findAll (snd (post_books_id_delete db req s)))
       \<and> fst (get_books req' (snd (post_books_id_delete db req s)))
           = Inr (Render 200 ''index'' (Books (remove1 b (rows s))))
       \<and> Book_findByPk db (params_id req) (snd (post_books_id_delete db req s)) = None
       \<and> fst (get_books_id db req (snd (post_books_id_delete db req s)))
           = Inr (Render 200 ''update-book'' (BookInstance None))
       \<and> (\<forall>r \<in> set (rows s). r \<noteq> b \<longrightarrow> r \<in> set (rows (snd (post_books_id_delete db req s))))"
proof -
  have mem: "b \<in> set (rows s)" using Book_findByPk_Some[OF assms(1)] by simp
  have s': "snd (post_books_id_delete db req s) = Book_destroy b s"
    and resp: "fst (post_books_id_delete db req s) = Inr (Redirect ''/books'')"
    using assms(1) by (simp_all add: post_books_id_delete_def)
  have rows': "rows (Book_destroy b s) = remove1 b (rows s)"
    using filter_other_keys[OF assms(2) mem] by (simp add: Book_destroy_def)
  have d: "distinct (rows s)" using assms(2) by (simp add: distinct_map)
  have gone: "b \<notin> set (remove1 b (rows s))" using d by simp
  have others: "\<forall>r \<in> set (rows s). r \<noteq> b \<longrightarrow> r \<in> set (remove1 b (rows s))" by simp
  have seq': "seq (Book_destroy b s) = seq s" by (simp add: Book_destroy_def)
  show ?thesis
    using mem resp gone others Book_findByPk_after_destroy[OF assms(1)]
    by (simp add: s' rows' seq' Book_findAll_def get_books_def get_books_id_def asyncHandler_def)
qed

theorem delete_removes_exactly_that_record_witness:
  "Book_findByPk example_engine (ustr ''1'') library = Some book1
   \<and> distinct (map book_id (rows library))
   \<and> rows (snd (post_books_id_delete example_engine
        \<lparr>url = ''/books/1/delete'', params_id = ustr ''1'', body = no_fields, now = 300\<rparr>
        library)) = [book2]
   \<and> Book_findByPk example_engine (ustr ''1'') (snd (post_books_id_delete example_engine
        \<lparr>url = ''/books/1/delete'', params_id = ustr ''1'', body = no_fields, now = 300\<rparr>
        library)) = None"
proof -
  have f: "Book_findByPk example_engine (ustr ''1'') library = Some book1"
    by (simp add: Book_findByPk_def example_defs)
  have d: "distinct (map book_id (rows library))"
    by (simp add: example_defs)
  show ?thesis
    using f d delete_removes_exactly_that_record[where b = book1 and s = library
        and db = example_engine
        and req = "\<lparr>url = ''/books/1/delete'', params_id = ustr ''1'', body = no_fields,
                    now = 300\<rparr>"]
    by (simp add: example_defs)
qed

section \<open>Requests for a key that is not in the store\<close>

text \<open>
  Claim C8, as stated, fails: an update of a missing key has no outcome of its own. The
  fetch gives null, the call of \<open>update\<close> on it throws a TypeError, and the wrapper
  answers with status 500 and the view \<open>error\<close>, which is not the response of the 404
  handler.
\<close>

theorem update_missing_id_counterexample:
  "Book_findByPk example_engine (ustr ''7'') library = None
   \<and> post_books_id example_engine
        \<lparr>url = ''/books/7'', params_id = ustr ''7'',
         body = form_of ''Emma'' ''Jane Austen'' ''Classic'' ''1815'', now = 300\<rparr> library
     = (Inr (Render 500 ''error'' NoLocals), library)
   \<and> Render 500 ''error'' NoLocals \<noteq> page_not_found"
  by (simp add: post_books_id_def asyncHandler_def Book_findByPk_def page_not_found_def
      example_defs)

text \<open>
  Claim C8, amended. Whenever the fetch by the route parameter finds no record in the
  store, \<open>POST /books/:id\<close> answers with status 500 and the generic view \<open>error\<close> and
  leaves the store unchanged. When the fetch finds a record, the response is the
  redirect to \<open>/\<close> or a form rendered again, never that error page.
\<close>

theorem update_missing_id_error_page:
  "(Book_findByPk db (params_id req) s = None
      \<longrightarrow> post_books_id db req s = (Inr (Render 500 ''error'' NoLocals), s))
   \<and> (Book_findByPk db (params_id req) s \<noteq> None
      \<longrightarrow> fst (post_books_id db req s) = Inr (Redirect ''/'')
          \<or> (\<exists>l. fst (post_books_id db req s) = Inr (Render 200 ''new-book'' l))
          \<or> (\<exists>l. fst (post_books_id db req s) = Inr (Render 200 ''update-book'' l)))"
  by (auto simp: post_books_id_def asyncHandler_def Book_update_def split: option.splits)

theorem update_missing_id_error_page_witness:
  "Book_findByPk example_engine (ustr ''7'') library = None
   \<and> post_books_id example_engine
        \<lparr>url = ''/books/7'', params_id = ustr ''7'',
         body = form_of ''Emma'' ''Jane Austen'' ''Classic'' ''1815'', now = 300\<rparr> library
     = (Inr (Render 500 ''error'' NoLocals), library)
   \<and> Book_findByPk example_engine (ustr ''1'') library \<noteq> None
   \<and> fst (post_books_id example_engine
        \<lparr>url = ''/books/1'', params_id = ustr ''1'',
         body = form_of ''Emma'' ''Jane Austen'' ''Classic'' ''1815'', now = 300\<rparr> library)
     \<noteq> Inr (Render 500 ''error'' NoLocals)"
proof -
  have n: "Book_findByPk example_engine (ustr ''7'') library = None"
    by (simp add: Book_findByPk_def example_defs)
  have y: "Book_findByPk example_engine (ustr ''1'') library \<noteq> None"
    by (simp add: Book_findByPk_def example_defs)
  have 1: "post_books_id example_engine
        \<lparr>url = ''/books/7'', params_id = ustr ''7'',
         body = form_of ''Emma'' ''Jane Austen'' ''Classic'' ''1815'', now = 300\<rparr> library
     = (Inr (Render 500 ''error'' NoLocals), library)"
    using n update_missing_id_error_page[where s = library and db = example_engine
        and req = "\<lparr>url = ''/books/7'', params_id = ustr ''7'',
         body = form_of ''Emma'' ''Jane Austen'' ''Classic'' ''1815'', now = 300\<rparr>"]
    by simp
  have 2: "fst (post_books_id example_engine
        \<lparr>url = ''/books/1'', params_id = ustr ''1'',
         body = form_of ''Emma'' ''Jane Austen'' ''Classic'' ''1815'', now = 300\<rparr> library)
     \<noteq> Inr (Render 500 ''error'' NoLocals)"
    using y update_missing_id_error_page[where s = library and db = example_engine
        and req = "\<lparr>url = ''/books/1'', params_id = ustr ''1'',
         body = form_of ''Emma'' ''Jane Austen'' ''Classic'' ''1815'', now = 300\<rparr>"]
    by auto
  from n y 1 2 show ?thesis by blast
qed

lemma asyncHandler_responds: "\<exists>r. fst (asyncHandler cb req s) = Inr r"
  by (auto simp: asyncHandler_def split: prod.splits sum.splits)

text \<open>
  Claim C10. For every request \<open>POST /books/:id/delete\<close> for which the fetch by the route
  parameter finds no record, the fetch gives null and the call of \<open>destroy\<close> throws a
  TypeError that leaves the handler: the handler produces no response, and the store is
  unchanged. The two other routes that write, create and update, are wrapped and always
  end with a response.
\<close>

theorem delete_missing_id_escapes:
  assumes "Book_findByPk db (params_id req) s = None"
  shows "post_books_id_delete db req s = (Inl TypeError, s)
       \<and> (\<exists>r. fst (post_books_new db req' s') = Inr r)
       \<and> (\<exists>r. fst (post_books_id db req' s') = Inr r)"
  using assms asyncHandler_responds
  by (simp add: post_books_id_delete_def post_books_new_def post_books_id_def)

theorem delete_missing_id_escapes_witness:
  "Book_findByPk example_engine (ustr ''7'') library = None
   \<and> post_books_id_delete example_engine
        \<lparr>url = ''/books/7/delete'', params_id = ustr ''7'', body = no_fields, now = 300\<rparr>
        library = (Inl TypeError, library)"
proof -
  have n: "Book_findByPk example_engine (ustr ''7'') library = None"
    by (simp add: Book_findByPk_def example_defs)
  show ?thesis
    using n delete_missing_id_escapes[where s = library and db = example_engine
        and req = "\<lparr>url = ''/books/7/delete'', params_id = ustr ''7'', body = no_fields,
                    now = 300\<rparr>"]
    by simp
qed

section \<open>The error wrapper\<close>

text \<open>
  On a validation error the wrapper compares \<open>req.url\<close> with \<open>/books/new\<close> for
  equality; the update form gets the text of the URL from position 7 on as its id, which
  is the text after \<open>/books/\<close> when the URL is \<open>/books/\<close> followed by it.
\<close>

lemma asyncHandler_validation_error:
  assumes "cb req s = (Inl SequelizeValidationError, s')"
  shows "asyncHandler cb req s =
     (Inr (if url req = ''/books/new''
           then Render 200 ''new-book''
                  (NewBookValues (form_title (body req)) (form_author (body req))
                     (form_genre (body req)) (form_year (body req)) True)
           else Render 200 ''update-book''
                  (UpdateBookValues (drop 7 (url req)) (form_title (body req))
                     (form_author (body req)) (form_genre (body req)) (form_year (body req)) True)),
      s')"
  using assms by (simp add: asyncHandler_def)

lemma update_form_id_of_exact_path: "url req = ''/books/'' @ i \<Longrightarrow> drop 7 (url req) = i"
  by simp

text \<open>
  Claim C9: the form to render again is chosen by a prefix check of the path against
  \<open>/books/new\<close>. The code compares for equality instead: a post to
  \<open>/books/new?x=1\<close> with an empty title reaches the create route, its URL has the
  prefix \<open>/books/new\<close>, and the wrapper renders the update form with the id
  \<open>new?x=1\<close>.
\<close>

theorem create_with_query_string_renders_update_form:
  "prefix ''/books/new'' ''/books/new?x=1''
   \<and> post_books_new example_engine
        \<lparr>url = ''/books/new?x=1'', params_id = [],
         body = form_of [] ''Jane Austen'' ''Classic'' ''1815'', now = 300\<rparr> library
     = (Inr (Render 200 ''update-book''
              (UpdateBookValues ''new?x=1'' (Some []) (Some (ustr ''Jane Austen''))
                 (Some (ustr ''Classic'')) (Some (ustr ''1815'')) True)), library)"
  by (simp add: post_books_new_def asyncHandler_def Book_create_def validate_on_create_def
      notEmpty_def form_of_def ustr_def)

end
